theory Spec2Isabelle
  imports Main
begin

section \<open>Python library functions used by app.py\<close>

text \<open>
  The program is a single Python module, \<^verbatim>\<open>src/app.py\<close>: a client class
  \<^verbatim>\<open>MyobClient\<close> and a driver \<^verbatim>\<open>main\<close>. Python strings are modelled as
  \<^typ>\<open>string\<close>, the natural numbers produced by \<^verbatim>\<open>len\<close> as \<^typ>\<open>nat\<close>, HTTP status
  codes as \<^typ>\<open>int\<close>. Exceptions are values: a function that can raise returns a
  sum whose left injection is the exception raised.
\<close>

subsection \<open>Exceptions\<close>

text \<open>
  The exception classes that can occur, each with the text \<^verbatim>\<open>str(e)\<close> gives. All of
  them are subclasses of \<^verbatim>\<open>Exception\<close>, so \<^verbatim>\<open>except Exception\<close> catches each
  one; \<^verbatim>\<open>except ValueError\<close> catches only the second.
\<close>

datatype exn =
    Exception string
  | ValueError string
  | KeyError string
  | IndexError string
  | AttributeError string
  | RequestException string
  | JSONDecodeError string
  | OSError string

fun str_exn :: "exn \<Rightarrow> string" where
  "str_exn (Exception m) = m"
| "str_exn (ValueError m) = m"
| "str_exn (KeyError m) = m"
| "str_exn (IndexError m) = m"
| "str_exn (AttributeError m) = m"
| "str_exn (RequestException m) = m"
| "str_exn (JSONDecodeError m) = m"
| "str_exn (OSError m) = m"

subsection \<open>Strings\<close>

text \<open>\<^verbatim>\<open>sep.join(xs)\<close>\<close>

fun join :: "string \<Rightarrow> string list \<Rightarrow> string" where
  "join sep [] = []"
| "join sep [x] = x"
| "join sep (x # y # ys) = x @ sep @ join sep (y # ys)"

text \<open>\<^verbatim>\<open>s.strip(c)\<close> for a single character \<open>c\<close>: every leading and every trailing
  occurrence of \<open>c\<close> is removed.\<close>

definition strip :: "char \<Rightarrow> string \<Rightarrow> string" where
  "strip c s = rev (dropWhile (\<lambda>x. x = c) (rev (dropWhile (\<lambda>x. x = c) s)))"

text \<open>\<^verbatim>\<open>str(n)\<close> for a non-negative integer, and for an integer.\<close>

definition digit_char :: "nat \<Rightarrow> char" where
  "digit_char d = ''0123456789'' ! d"

fun str_nat :: "nat \<Rightarrow> string" where
  "str_nat n = (if n < 10 then [digit_char n] else str_nat (n div 10) @ [digit_char (n mod 10)])"

declare str_nat.simps [simp del]

definition str_int :: "int \<Rightarrow> string" where
  "str_int i = (if i < 0 then CHR ''-'' # str_nat (nat (- i)) else str_nat (nat i))"

text \<open>Zero padding to a width, as \<^verbatim>\<open>%02d\<close> does.\<close>

definition zero_pad :: "nat \<Rightarrow> nat \<Rightarrow> string" where
  "zero_pad w n = replicate (w - length (str_nat n)) CHR ''0'' @ str_nat n"

subsection \<open>datetime.strptime and strftime\<close>

text \<open>
  \<^verbatim>\<open>datetime.strptime(data_string, format)\<close> turns the format into a regular
  expression, one group of alternatives per directive, and matches it (ignoring case) at
  the start of the data string. The groups of the six directives the program uses are
  those of CPython's \<^verbatim>\<open>_strptime.TimeRE\<close>:
  \<^verbatim>\<open>
  %Y  \d\d\d\d
  %m  1[0-2]|0[1-9]|[1-9]
  %d  3[0-1]|[1-2]\d|0[1-9]|[1-9]| [1-9]
  %H  2[0-3]|[0-1]\d|\d
  %M  [0-5]\d|\d
  %S  6[0-1]|[0-5]\d|\d
  \<close>
  An alternative is a list of character classes, a class the string of its members.
  The alternatives of a group are tried in order and the first that matches a prefix is
  taken; this is what the regular expression does whenever each directive is followed by
  a literal character or ends the format, as in the two formats of \<^verbatim>\<open>main\<close>.
  Characters are bytes here, so \<^verbatim>\<open>\d\<close> is an ASCII digit.
\<close>

type_synonym alt = "string list"

definition digits :: string where
  "digits = ''0123456789''"

definition digits19 :: string where
  "digits19 = ''123456789''"

fun directive_re :: "char \<Rightarrow> alt list option" where
  "directive_re c =
    (if c = CHR ''Y'' then Some [[digits, digits, digits, digits]]
     else if c = CHR ''m'' then Some [[''1'', ''012''], [''0'', digits19], [digits19]]
     else if c = CHR ''d'' then
       Some [[''3'', ''01''], [''12'', digits], [''0'', digits19], [digits19], ['' '', digits19]]
     else if c = CHR ''H'' then Some [[''2'', ''0123''], [''01'', digits], [digits]]
     else if c = CHR ''M'' then Some [[''012345'', digits], [digits]]
     else if c = CHR ''S'' then Some [[''6'', ''01''], [''012345'', digits], [digits]]
     else None)"

fun match_alt :: "alt \<Rightarrow> string \<Rightarrow> (string \<times> string) option" where
  "match_alt [] s = Some ([], s)"
| "match_alt (cls # a) [] = None"
| "match_alt (cls # a) (c # s) =
    (if c \<in> set cls
     then (case match_alt a s of None \<Rightarrow> None | Some (t, r) \<Rightarrow> Some (c # t, r))
     else None)"

fun match_alts :: "alt list \<Rightarrow> string \<Rightarrow> (string \<times> string) option" where
  "match_alts [] s = None"
| "match_alts (a # as) s =
    (case match_alt a s of Some tr \<Rightarrow> Some tr | None \<Rightarrow> match_alts as s)"

text \<open>\<^verbatim>\<open>int(token)\<close> for a matched token: decimal digits, surrounding blanks ignored.\<close>

definition digit_val :: "char \<Rightarrow> nat" where
  "digit_val c = length (takeWhile (\<lambda>d. d \<noteq> c) digits)"

definition int_of_token :: "string \<Rightarrow> nat" where
  "int_of_token t = foldl (\<lambda>n c. 10 * n + digit_val c) 0 (filter (\<lambda>c. c \<noteq> CHR '' '') t)"

definition to_lower :: "char \<Rightarrow> char" where
  "to_lower c =
    (case map_of (zip ''ABCDEFGHIJKLMNOPQRSTUVWXYZ'' ''abcdefghijklmnopqrstuvwxyz'') c of
       Some l \<Rightarrow> l
     | None \<Rightarrow> c)"

record datetime =
  year :: nat
  month :: nat
  day :: nat
  hour :: nat
  minute :: nat
  second :: nat

definition set_field :: "char \<Rightarrow> nat \<Rightarrow> datetime \<Rightarrow> datetime" where
  "set_field c v dt =
    (if c = CHR ''Y'' then dt\<lparr>year := v\<rparr>
     else if c = CHR ''m'' then dt\<lparr>month := v\<rparr>
     else if c = CHR ''d'' then dt\<lparr>day := v\<rparr>
     else if c = CHR ''H'' then dt\<lparr>hour := v\<rparr>
     else if c = CHR ''M'' then dt\<lparr>minute := v\<rparr>
     else dt\<lparr>second := v\<rparr>)"

text \<open>
  Matching the format against the data string. The result is \<open>None\<close> when the regular
  expression does not match, and otherwise the fields found and the unconverted rest.
  A directive outside the six above is not used by the program and is treated as a
  mismatch.
\<close>

fun match_format :: "string \<Rightarrow> string \<Rightarrow> datetime \<Rightarrow> (datetime \<times> string) option" where
  "match_format [] s dt = Some (dt, s)"
| "match_format [f] s dt =
    (case s of [] \<Rightarrow> None
     | c # r \<Rightarrow> if to_lower c = to_lower f then Some (dt, r) else None)"
| "match_format (f # g # fmt) s dt =
    (if f = CHR ''%'' then
       (case directive_re g of
          None \<Rightarrow> None
        | Some alts \<Rightarrow>
            (case match_alts alts s of
               None \<Rightarrow> None
             | Some (t, r) \<Rightarrow> match_format fmt r (set_field g (int_of_token t) dt)))
     else
       (case s of [] \<Rightarrow> None
        | c # r \<Rightarrow> if to_lower c = to_lower f then match_format (g # fmt) r dt else None))"

definition is_leap :: "nat \<Rightarrow> bool" where
  "is_leap y = (y mod 4 = 0 \<and> (y mod 100 \<noteq> 0 \<or> y mod 400 = 0))"

definition days_in_month :: "nat \<Rightarrow> nat \<Rightarrow> nat" where
  "days_in_month y m =
    (if m = 2 then (if is_leap y then 29 else 28)
     else if m \<in> {4, 6, 9, 11} then 30 else 31)"

text \<open>\<^verbatim>\<open>repr(s)\<close> of a string without quotes, backslashes or control characters.\<close>

definition repr :: "string \<Rightarrow> string" where
  "repr s = [CHR 0x27] @ s @ [CHR 0x27]"

text \<open>
  The constructor \<^verbatim>\<open>datetime(year, month, day, hour, minute, second)\<close> checks its
  arguments in this order and raises \<^verbatim>\<open>ValueError\<close> on the first out of range.
\<close>

definition datetime_checked :: "datetime \<Rightarrow> exn + datetime" where
  "datetime_checked dt =
    (if year dt < 1 \<or> year dt > 9999 then
       Inl (ValueError (''year '' @ str_nat (year dt) @ '' is out of range''))
     else if month dt < 1 \<or> month dt > 12 then Inl (ValueError ''month must be in 1..12'')
     else if day dt < 1 \<or> day dt > days_in_month (year dt) (month dt) then
       Inl (ValueError ''day is out of range for month'')
     else if hour dt > 23 then Inl (ValueError ''hour must be in 0..23'')
     else if minute dt > 59 then Inl (ValueError ''minute must be in 0..59'')
     else if second dt > 59 then Inl (ValueError ''second must be in 0..59'')
     else Inr dt)"

text \<open>
  The fields not named by the format default to 1900-01-01 00:00:00. After a complete
  match the datetime is constructed from the fields found (the regular expression allows
  the year 0000, the seconds 60 and 61 and every day up to 31).
\<close>

definition strptime :: "string \<Rightarrow> string \<Rightarrow> exn + datetime" where
  "strptime data_string format =
    (case match_format format data_string
            \<lparr>year = 1900, month = 1, day = 1, hour = 0, minute = 0, second = 0\<rparr> of
       None \<Rightarrow>
         Inl (ValueError (''time data '' @ repr data_string @
                          '' does not match format '' @ repr format))
     | Some (dt, r) \<Rightarrow>
         if r \<noteq> [] then Inl (ValueError (''unconverted data remains: '' @ r))
         else datetime_checked dt)"

text \<open>
  \<^verbatim>\<open>dt.strftime("%Y%m%d")\<close>: the year on four digits, month and day on two. A
  year below 1000 is padded with zeros, as the Python documentation gives \<^verbatim>\<open>%Y\<close>; a
  C library that leaves such a year unpadded is not modelled.
\<close>

definition strftime_Ymd :: "datetime \<Rightarrow> string" where
  "strftime_Ymd dt = zero_pad 4 (year dt) @ zero_pad 2 (month dt) @ zero_pad 2 (day dt)"

text \<open>\<^verbatim>\<open>json.dumps(body, separators=(',', ':'))\<close> for a dictionary of strings whose keys
  and values hold no character that JSON escapes.\<close>

type_synonym pdict = "(string \<times> string) list"

definition json_dumps :: "pdict \<Rightarrow> string" where
  "json_dumps d =
    ''{'' @ join '','' (map (\<lambda>(k, v). [CHR 0x22] @ k @ [CHR 0x22] @ '':'' @
                                      [CHR 0x22] @ v @ [CHR 0x22]) d) @ ''}''"

section \<open>The world outside the program\<close>

text \<open>
  What the program reads from the remote service is typed as the program uses it. An
  invoice is a JSON object whose keys \<^verbatim>\<open>Number\<close>, \<^verbatim>\<open>Date\<close> and \<^verbatim>\<open>UID\<close> hold
  strings or are absent, an attachment one with the keys \<^verbatim>\<open>FileUri\<close> and
  \<^verbatim>\<open>OriginalFileName\<close>, an account one with the key \<^verbatim>\<open>Uri\<close>; \<open>None\<close> is the
  absent key. A JSON body is the list of accounts of the discovery call or an object
  with the optional keys \<^verbatim>\<open>Items\<close> and \<^verbatim>\<open>Attachments\<close>.
\<close>

record account =
  Uri :: "string option"

record invoice =
  Number :: "string option"
  Date :: "string option"
  UID :: "string option"

record attachment =
  FileUri :: "string option"
  OriginalFileName :: "string option"

record json_dict =
  Items :: "invoice list option"
  Attachments :: "attachment list option"

datatype json = JList "account list" | JDict json_dict

text \<open>
  A response: \<^verbatim>\<open>response.status_code\<close>, \<^verbatim>\<open>response.text\<close>,
  \<^verbatim>\<open>response.content\<close>, and the outcome of \<^verbatim>\<open>response.json()\<close>, which raises
  \<^verbatim>\<open>JSONDecodeError\<close> with the message on the left when the body is not JSON.
\<close>

record response =
  status_code :: int
  resp_text :: string
  resp_content :: string
  resp_json :: "string + json"

record request =
  req_method :: string
  req_url :: string
  req_headers :: "(string \<times> string) list"
  req_data :: string

text \<open>A request is answered by a response, or the transport raises a
  \<^verbatim>\<open>RequestException\<close> with the given message.\<close>

datatype reply = Response response | Raises string

text \<open>
  The environment of a run: the remote side, which answers a request knowing the
  requests made before it, and the operating system, which may refuse to create or open
  a path with an \<^verbatim>\<open>OSError\<close> of the given message.
\<close>

record env =
  server :: "request list \<Rightarrow> request \<Rightarrow> reply"
  os_error :: "string \<Rightarrow> string option"

datatype level = INFO | ERROR

text \<open>
  The state a run changes: the log records emitted, the requests sent, the files
  written (path to content) and the directories created.
\<close>

record world =
  logs :: "(level \<times> string) list"
  calls :: "request list"
  files :: "string \<rightharpoonup> string"
  dirs :: "string set"

definition logging_info :: "string \<Rightarrow> world \<Rightarrow> world" where
  "logging_info msg w = w\<lparr>logs := logs w @ [(INFO, msg)]\<rparr>"

definition logging_error :: "string \<Rightarrow> world \<Rightarrow> world" where
  "logging_error msg w = w\<lparr>logs := logs w @ [(ERROR, msg)]\<rparr>"

text \<open>\<^verbatim>\<open>session.request\<close> and \<^verbatim>\<open>requests.get\<close>: the request is sent and recorded.\<close>

definition http_request :: "env \<Rightarrow> request \<Rightarrow> world \<Rightarrow> reply \<times> world" where
  "http_request env rq w = (server env (calls w) rq, w\<lparr>calls := calls w @ [rq]\<rparr>)"

section \<open>MyobClient\<close>

record client =
  client_id :: string
  access_token :: string
  session_headers :: "(string \<times> string) list"
  api_url :: string

text \<open>
  \<^verbatim>\<open>MyobClient.__init__\<close> (lines 12-25). The session carries the four headers set
  here. \<^verbatim>\<open>.json()[0]['Uri']\<close> raises when the body is not JSON, is an object, is an
  empty list, or its first account has no \<^verbatim>\<open>Uri\<close>.
\<close>

definition MyobClient_init :: "env \<Rightarrow> string \<Rightarrow> string \<Rightarrow> world \<Rightarrow> (exn + client) \<times> world" where
  "MyobClient_init env cid tok w =
    (let headers = [(''Authorization'', ''Bearer '' @ tok),
                    (''x-myobapi-key'', cid),
                    (''x-myobapi-version'', ''v2''),
                    (''Content-Type'', ''application/json'')]
     in case http_request env \<lparr>req_method = ''GET'',
                                req_url = ''https://api.myob.com/accountright/'',
                                req_headers = headers, req_data = []\<rparr> w of
          (Raises m, w1) \<Rightarrow> (Inl (RequestException m), w1)
        | (Response r, w1) \<Rightarrow>
            (case resp_json r of
               Inl m \<Rightarrow> (Inl (JSONDecodeError m), w1)
             | Inr (JDict d) \<Rightarrow> (Inl (KeyError ''0''), w1)
             | Inr (JList []) \<Rightarrow> (Inl (IndexError ''list index out of range''), w1)
             | Inr (JList (a # _)) \<Rightarrow>
                 (case Uri a of
                    None \<Rightarrow> (Inl (KeyError (repr ''Uri'')), w1)
                  | Some u \<Rightarrow>
                      (Inr \<lparr>client_id = cid, access_token = tok,
                            session_headers = headers, api_url = u\<rparr>,
                       logging_info (''Using API URL: '' @ u) w1))))"

subsection \<open>The request primitive\<close>

text \<open>
  The \<^verbatim>\<open>params\<close> dictionary of \<^verbatim>\<open>_send_request\<close> (lines 27-57): its entry under
  the key \<^verbatim>\<open>'filters'\<close>, absent or a dictionary, and its other entries in insertion
  order. Keys and values are strings.
\<close>

record params =
  filters :: "pdict option"
  plain :: pdict

text \<open>\<^verbatim>\<open>params.pop('filters', None)\<close> (line 33)\<close>

definition pop_filters :: "params \<Rightarrow> params" where
  "pop_filters ps = ps\<lparr>filters := None\<rparr>"

text \<open>Lines 28-31.\<close>

definition filter_query_string :: "params \<Rightarrow> string" where
  "filter_query_string ps =
    (case filters ps of
       Some f \<Rightarrow> join ''&'' (map (\<lambda>(k, v). ''filters['' @ k @ '']='' @ v) f)
     | None \<Rightarrow> [])"

text \<open>Line 34, on the dictionary without its filters.\<close>

definition non_filter_query_string :: "params \<Rightarrow> string" where
  "non_filter_query_string ps =
    join ''&'' (map (\<lambda>(k, v). k @ ''='' @ v) (plain (pop_filters ps)))"

text \<open>Line 36.\<close>

definition query_string :: "params \<Rightarrow> string" where
  "query_string ps =
    strip CHR ''&'' (join ''&'' [filter_query_string ps, non_filter_query_string ps])"

text \<open>
  \<^verbatim>\<open>_send_request\<close>. It returns the response or the exception of the transport,
  and the caller's dictionary as the call leaves it. The variable \<^verbatim>\<open>message\<close> of
  lines 38-42 is never read and is left out.
\<close>

definition send_request ::
  "env \<Rightarrow> client \<Rightarrow> string \<Rightarrow> string \<Rightarrow> params \<Rightarrow> pdict \<Rightarrow> world
    \<Rightarrow> (exn + response) \<times> params \<times> world" where
  "send_request env self meth url ps body w =
    (let qs = query_string ps;
         ps' = pop_filters ps;
         body_str = (if body \<noteq> [] then json_dumps body else []);
         url' = (if qs \<noteq> [] then url @ ''?'' @ qs else url);
         w1 = logging_info (''Making '' @ meth @ '' request to: '' @ url') w
     in case http_request env \<lparr>req_method = meth, req_url = url',
                                req_headers = session_headers self,
                                req_data = body_str\<rparr> w1 of
          (Raises m, w2) \<Rightarrow> (Inl (RequestException m), ps', w2)
        | (Response r, w2) \<Rightarrow>
            (let w3 = logging_info (''Response status code: '' @ str_int (status_code r)) w2;
                 w4 = (if status_code r \<noteq> 200
                       then logging_error (''Response text: '' @ resp_text r) w3
                       else logging_info ''Request successful'' w3)
             in (Inr r, ps', w4)))"

subsection \<open>The three operations\<close>

text \<open>\<^verbatim>\<open>get_invoices_between_dates\<close> (lines 59-79)\<close>

definition get_invoices_between_dates ::
  "env \<Rightarrow> client \<Rightarrow> string \<Rightarrow> string \<Rightarrow> world \<Rightarrow> (exn + invoice list) \<times> world" where
  "get_invoices_between_dates env self start_date end_date w =
    (let url = api_url self @ ''/Purchase/Bill'';
         ps = \<lparr>filters = None,
               plain = [(''$filter'',
                         ''Date ge datetime'' @ [CHR 0x27] @ start_date @ ''T00:00:00'' @
                         [CHR 0x27] @ '' and Date le datetime'' @ [CHR 0x27] @ end_date @
                         ''T23:59:59'' @ [CHR 0x27]),
                        (''$orderby'', ''Date desc'')]\<rparr>;
         w1 = logging_info (''Searching for invoices between '' @ start_date @ '' and '' @
                            end_date) w
     in case send_request env self ''GET'' url ps [] w1 of
          (Inl e, _, w2) \<Rightarrow> (Inl e, w2)
        | (Inr r, _, w2) \<Rightarrow>
            if status_code r \<noteq> 200 then (Inr [], logging_error ''Failed to get invoices'' w2)
            else
              (case resp_json r of
                 Inl m \<Rightarrow> (Inl (JSONDecodeError m), w2)
               | Inr (JList _) \<Rightarrow>
                   (Inl (AttributeError (repr ''list'' @ '' object has no attribute '' @
                                         repr ''get'')), w2)
               | Inr (JDict data) \<Rightarrow>
                   (let invoices = (case Items data of None \<Rightarrow> [] | Some l \<Rightarrow> l)
                    in (Inr invoices,
                        logging_info (''Found '' @ str_nat (length invoices) @
                                      '' invoices between '' @ start_date @ '' and '' @
                                      end_date) w2))))"

text \<open>\<^verbatim>\<open>get_invoice_attachments\<close> (lines 81-94); \<^verbatim>\<open>params\<close> is the empty default.\<close>

definition get_invoice_attachments ::
  "env \<Rightarrow> client \<Rightarrow> string \<Rightarrow> world \<Rightarrow> (exn + attachment list) \<times> world" where
  "get_invoice_attachments env self invoice_uid w =
    (let w1 = logging_info (''Getting attachments for invoice UID: '' @ invoice_uid) w;
         url = api_url self @ ''/Purchase/Bill/Service/'' @ invoice_uid @ ''/Attachment''
     in case send_request env self ''GET'' url \<lparr>filters = None, plain = []\<rparr> [] w1 of
          (Inl e, _, w2) \<Rightarrow> (Inl e, w2)
        | (Inr r, _, w2) \<Rightarrow>
            if status_code r \<noteq> 200 then (Inr [], logging_error ''Failed to get attachments'' w2)
            else
              (case resp_json r of
                 Inl m \<Rightarrow> (Inl (JSONDecodeError m), w2)
               | Inr (JList _) \<Rightarrow>
                   (Inl (AttributeError (repr ''list'' @ '' object has no attribute '' @
                                         repr ''get'')), w2)
               | Inr (JDict data) \<Rightarrow>
                   (Inr (case Attachments data of None \<Rightarrow> [] | Some l \<Rightarrow> l), w2)))"

text \<open>
  \<^verbatim>\<open>download_attachment\<close> (lines 96-109). The fetch goes through
  \<^verbatim>\<open>requests.get\<close>, without the session and its headers. Opening the file for
  writing (\<^verbatim>\<open>'wb'\<close>) replaces what was at the path.
\<close>

definition download_attachment ::
  "env \<Rightarrow> string \<Rightarrow> string \<Rightarrow> world \<Rightarrow> (exn + unit) \<times> world" where
  "download_attachment env file_uri save_path w =
    (let w1 = logging_info (''Downloading attachment from: '' @ file_uri) w
     in case http_request env \<lparr>req_method = ''GET'', req_url = file_uri,
                                req_headers = [], req_data = []\<rparr> w1 of
          (Raises m, w2) \<Rightarrow> (Inl (RequestException m), w2)
        | (Response r, w2) \<Rightarrow>
            if status_code r \<noteq> 200
            then (Inl (Exception (''Failed to download attachment: '' @ resp_text r)), w2)
            else
              (case os_error env save_path of
                 Some m \<Rightarrow> (Inl (OSError m), w2)
               | None \<Rightarrow>
                   (Inr (),
                    logging_info (''Successfully saved attachment to '' @ save_path)
                      (w2\<lparr>files := (files w2)(save_path \<mapsto> resp_content r)\<rparr>))))"

subsection \<open>The requests on the wire\<close>

text \<open>The request each operation sends, written out for the statements below.\<close>

definition list_invoices_request :: "client \<Rightarrow> string \<Rightarrow> string \<Rightarrow> request" where
  "list_invoices_request self start_date end_date =
    \<lparr>req_method = ''GET'',
     req_url = api_url self @ ''/Purchase/Bill?$filter=Date ge datetime'' @ [CHR 0x27] @
               start_date @ ''T00:00:00'' @ [CHR 0x27] @ '' and Date le datetime'' @
               [CHR 0x27] @ end_date @ ''T23:59:59'' @ [CHR 0x27] @ ''&$orderby=Date desc'',
     req_headers = session_headers self, req_data = []\<rparr>"

definition list_attachments_request :: "client \<Rightarrow> string \<Rightarrow> request" where
  "list_attachments_request self invoice_uid =
    \<lparr>req_method = ''GET'',
     req_url = api_url self @ ''/Purchase/Bill/Service/'' @ invoice_uid @ ''/Attachment'',
     req_headers = session_headers self, req_data = []\<rparr>"

definition download_request :: "string \<Rightarrow> request" where
  "download_request file_uri =
    \<lparr>req_method = ''GET'', req_url = file_uri, req_headers = [], req_data = []\<rparr>"

section \<open>The driver\<close>

record counters =
  total_attachments :: nat
  downloaded_attachments :: nat

record args =
  myob_client_id :: string
  myob_access_token :: string
  start_date :: string
  end_date :: string

definition output_dir :: string where
  "output_dir = ''invoice_pdfs''"

text \<open>Line 164.\<close>

definition file_name :: "string \<Rightarrow> string \<Rightarrow> string \<Rightarrow> string" where
  "file_name invoice_date_str invoice_number original_filename =
    output_dir @ ''/invoice_'' @ invoice_date_str @ ''_'' @ invoice_number @ ''_'' @
    original_filename"

text \<open>
  The body of the loop over the attachments of one invoice (lines 158-173).
  \<^verbatim>\<open>if file_uri\<close> is false for an absent URI and for the empty string. The date is
  parsed before the \<^verbatim>\<open>try\<close> of line 166, so its \<^verbatim>\<open>ValueError\<close> leaves the loop;
  whatever \<^verbatim>\<open>download_attachment\<close> raises is caught and logged.
\<close>

definition main_attachment ::
  "env \<Rightarrow> string \<Rightarrow> string \<Rightarrow> attachment \<Rightarrow> counters \<Rightarrow> world \<Rightarrow> (exn + counters) \<times> world" where
  "main_attachment env invoice_number invoice_date att st w =
    (let original_filename =
           (case OriginalFileName att of None \<Rightarrow> ''unknown.pdf'' | Some n \<Rightarrow> n);
         no_uri = (Inr st, logging_error (''No FileUri found in attachment data for invoice '' @
                                          invoice_number) w)
     in case FileUri att of
          None \<Rightarrow> no_uri
        | Some file_uri \<Rightarrow>
            if file_uri = [] then no_uri
            else
              (case strptime invoice_date ''%Y-%m-%dT%H:%M:%S'' of
                 Inl e \<Rightarrow> (Inl e, w)
               | Inr dt \<Rightarrow>
                   (let fname = file_name (strftime_Ymd dt) invoice_number original_filename
                    in case download_attachment env file_uri fname w of
                         (Inr _, w1) \<Rightarrow>
                           (Inr (st\<lparr>downloaded_attachments := downloaded_attachments st + 1\<rparr>),
                            logging_info (''Successfully downloaded: '' @ fname) w1)
                       | (Inl e, w1) \<Rightarrow>
                           (Inr st,
                            logging_error (''Failed to download attachment for invoice '' @
                                           invoice_number @ '': '' @ str_exn e) w1))))"

text \<open>The loop of line 157.\<close>

fun main_attachments ::
  "env \<Rightarrow> string \<Rightarrow> string \<Rightarrow> attachment list \<Rightarrow> counters \<Rightarrow> world \<Rightarrow> (exn + counters) \<times> world" where
  "main_attachments env invoice_number invoice_date [] st w = (Inr st, w)"
| "main_attachments env invoice_number invoice_date (att # atts) st w =
    (case main_attachment env invoice_number invoice_date att st w of
       (Inl e, w1) \<Rightarrow> (Inl e, w1)
     | (Inr st1, w1) \<Rightarrow> main_attachments env invoice_number invoice_date atts st1 w1)"

text \<open>The body of the loop over the invoices (lines 144-175).\<close>

definition main_invoice ::
  "env \<Rightarrow> client \<Rightarrow> invoice \<Rightarrow> counters \<Rightarrow> world \<Rightarrow> (exn + counters) \<times> world" where
  "main_invoice env cl invoice st w =
    (let invoice_number = (case Number invoice of None \<Rightarrow> ''unknown'' | Some n \<Rightarrow> n);
         invoice_date = (case Date invoice of None \<Rightarrow> ''unknown'' | Some d \<Rightarrow> d)
     in case UID invoice of
          None \<Rightarrow> (Inl (KeyError (repr ''UID'')), w)
        | Some invoice_uid \<Rightarrow>
            (let w1 = logging_info (''Processing invoice '' @ invoice_number @ '' from '' @
                                    invoice_date) w
             in case get_invoice_attachments env cl invoice_uid w1 of
                  (Inl e, w2) \<Rightarrow> (Inl e, w2)
                | (Inr attachments, w2) \<Rightarrow>
                    if attachments \<noteq> [] then
                      main_attachments env invoice_number invoice_date attachments
                        (st\<lparr>total_attachments := total_attachments st + length attachments\<rparr>)
                        (logging_info (''Found '' @ str_nat (length attachments) @
                                       '' attachments for invoice '' @ invoice_number) w2)
                    else
                      (Inr st, logging_info (''No attachments found for invoice '' @
                                             invoice_number) w2)))"

text \<open>The loop of line 143.\<close>

fun main_invoices ::
  "env \<Rightarrow> client \<Rightarrow> invoice list \<Rightarrow> counters \<Rightarrow> world \<Rightarrow> (exn + counters) \<times> world" where
  "main_invoices env cl [] st w = (Inr st, w)"
| "main_invoices env cl (invoice # invoices) st w =
    (case main_invoice env cl invoice st w of
       (Inl e, w1) \<Rightarrow> (Inl e, w1)
     | (Inr st1, w1) \<Rightarrow> main_invoices env cl invoices st1 w1)"

text \<open>The summary of line 177.\<close>

definition summary :: "counters \<Rightarrow> string" where
  "summary st =
    ''Download complete. Found '' @ str_nat (total_attachments st) @
    '' attachments, successfully downloaded '' @ str_nat (downloaded_attachments st)"

text \<open>The body of the \<^verbatim>\<open>try\<close> of line 136 (lines 137-177). When it does not
  raise, the result is the pair of counters as logged by line 177.\<close>

definition main_try ::
  "env \<Rightarrow> client \<Rightarrow> string \<Rightarrow> string \<Rightarrow> world \<Rightarrow> (exn + counters) \<times> world" where
  "main_try env cl start end w =
    (case get_invoices_between_dates env cl start end w of
       (Inl e, w1) \<Rightarrow> (Inl e, w1)
     | (Inr invoices, w1) \<Rightarrow>
         (case main_invoices env cl invoices
                 \<lparr>total_attachments = 0, downloaded_attachments = 0\<rparr> w1 of
            (Inl e, w2) \<Rightarrow> (Inl e, w2)
          | (Inr st, w2) \<Rightarrow> (Inr st, logging_info (summary st) w2)))"

text \<open>
  \<^verbatim>\<open>main\<close> (lines 111-180), from the parsed arguments on. The date check catches
  \<^verbatim>\<open>ValueError\<close> only. \<^verbatim>\<open>os.makedirs\<close> and the construction of the client are
  outside every handler: what they raise leaves \<^verbatim>\<open>main\<close>. What the \<^verbatim>\<open>try\<close>
  body raises is logged by the handler of line 179 and \<^verbatim>\<open>main\<close> returns.
\<close>

definition main :: "env \<Rightarrow> args \<Rightarrow> world \<Rightarrow> (exn + unit) \<times> world" where
  "main env a w =
    (let bad_date = (Inr (), logging_error ''Dates must be in YYYY-MM-DD format'' w)
     in case strptime (start_date a) ''%Y-%m-%d'' of
          Inl (ValueError _) \<Rightarrow> bad_date
        | Inl e \<Rightarrow> (Inl e, w)
        | Inr _ \<Rightarrow>
            (case strptime (end_date a) ''%Y-%m-%d'' of
               Inl (ValueError _) \<Rightarrow> bad_date
             | Inl e \<Rightarrow> (Inl e, w)
             | Inr _ \<Rightarrow>
                 (case os_error env output_dir of
                    Some m \<Rightarrow> (Inl (OSError m), w)
                  | None \<Rightarrow>
                      (case MyobClient_init env (myob_client_id a) (myob_access_token a)
                              (w\<lparr>dirs := insert output_dir (dirs w)\<rparr>) of
                         (Inl e, w1) \<Rightarrow> (Inl e, w1)
                       | (Inr cl, w1) \<Rightarrow>
                           (case main_try env cl (start_date a) (end_date a) w1 of
                              (Inl e, w2) \<Rightarrow>
                                (Inr (), logging_error (''Error: '' @ str_exn e) w2)
                            | (Inr _, w2) \<Rightarrow> (Inr (), w2))))))"

section \<open>Notions used in the statements\<close>

text \<open>A query string with a stray separator: it starts or ends with \<open>&\<close>.\<close>

definition stray_amp :: "string \<Rightarrow> bool" where
  "stray_amp s = (s \<noteq> [] \<and> (hd s = CHR ''&'' \<or> last s = CHR ''&''))"

text \<open>The test \<^verbatim>\<open>if file_uri\<close> of line 161, and the URIs of the attachments that
  pass it, in list order.\<close>

definition has_uri :: "attachment \<Rightarrow> bool" where
  "has_uri att = (case FileUri att of None \<Rightarrow> False | Some u \<Rightarrow> u \<noteq> [])"

definition present_uris :: "attachment list \<Rightarrow> string list" where
  "present_uris atts =
    List.map_filter
      (\<lambda>att. case FileUri att of None \<Rightarrow> None | Some u \<Rightarrow> if u = [] then None else Some u)
      atts"

text \<open>The values of lines 144, 145 and 159, with their defaults.\<close>

definition invoice_number_of :: "invoice \<Rightarrow> string" where
  "invoice_number_of invoice = (case Number invoice of None \<Rightarrow> ''unknown'' | Some n \<Rightarrow> n)"

definition invoice_date_of :: "invoice \<Rightarrow> string" where
  "invoice_date_of invoice = (case Date invoice of None \<Rightarrow> ''unknown'' | Some d \<Rightarrow> d)"

definition original_filename_of :: "attachment \<Rightarrow> string" where
  "original_filename_of att =
    (case OriginalFileName att of None \<Rightarrow> ''unknown.pdf'' | Some n \<Rightarrow> n)"

subsection \<open>Sample data\<close>

text \<open>
  A remote side that answers the \<open>n\<close>-th request of a run with the \<open>n\<close>-th reply
  of a script and refuses the connection afterwards, over an operating system that
  refuses nothing.
\<close>

definition scripted_env :: "reply list \<Rightarrow> env" where
  "scripted_env replies =
    \<lparr>server = (\<lambda>h rq. if length h < length replies then replies ! length h
                         else Raises ''connection refused''),
     os_error = (\<lambda>p. None)\<rparr>"

definition plain_response :: "int \<Rightarrow> string \<Rightarrow> response" where
  "plain_response code body =
    \<lparr>status_code = code, resp_text = body, resp_content = body,
     resp_json = Inl ''Expecting value''\<rparr>"

definition json_response :: "json \<Rightarrow> response" where
  "json_response j =
    \<lparr>status_code = 200, resp_text = ''(json)'', resp_content = ''(json)'', resp_json = Inr j\<rparr>"

definition ex_client :: client where
  "ex_client =
    \<lparr>client_id = ''id'', access_token = ''tok'',
     session_headers = [(''Authorization'', ''Bearer tok''), (''x-myobapi-key'', ''id''),
                        (''x-myobapi-version'', ''v2''),
                        (''Content-Type'', ''application/json'')],
     api_url = ''https://api/c1''\<rparr>"

definition ex_world :: world where
  "ex_world = \<lparr>logs = [], calls = [], files = Map.empty, dirs = {}\<rparr>"

definition ex_invoice :: invoice where
  "ex_invoice = \<lparr>Number = Some ''INV-42'', Date = Some ''2024-03-05T00:00:00'', UID = Some ''u1''\<rparr>"

definition undated_invoice :: invoice where
  "undated_invoice = \<lparr>Number = Some ''INV-43'', Date = None, UID = Some ''u2''\<rparr>"

definition att_a :: attachment where
  "att_a = \<lparr>FileUri = Some ''https://s3/a'', OriginalFileName = Some ''receipt.pdf''\<rparr>"

definition att_b :: attachment where
  "att_b = \<lparr>FileUri = Some ''https://s3/b'', OriginalFileName = None\<rparr>"

definition att_none :: attachment where
  "att_none = \<lparr>FileUri = None, OriginalFileName = Some ''scan.pdf''\<rparr>"

text \<open>
  A remote side that answers by the request alone: the discovery call with one account,
  every other request of the session with the same JSON object, which lists the given
  invoices and two attachments, and every fetch of a file by its URI:
  \<open>https://s3/a\<close> is gone, every other file is served.
\<close>

definition routing_env :: "invoice list \<Rightarrow> env" where
  "routing_env invoices =
    \<lparr>server = (\<lambda>h rq.
        if req_headers rq = [] then
          (if req_url rq = ''https://s3/a'' then Response (plain_response 404 ''gone'')
           else Response (plain_response 200 ''PDF''))
        else if req_url rq = ''https://api.myob.com/accountright/'' then
          Response (json_response (JList [\<lparr>Uri = Some ''https://api/c1''\<rparr>]))
        else Response (json_response (JDict \<lparr>Items = Some invoices,
                                              Attachments = Some [att_a, att_b]\<rparr>))),
     os_error = (\<lambda>p. None)\<rparr>"

section \<open>Properties of the library functions\<close>

lemmas strptime_eval = strptime_def datetime_checked_def digits_def digits19_def
  to_lower_def repr_def int_of_token_def digit_val_def set_field_def days_in_month_def
  is_leap_def

lemmas run_eval = main_def main_try_def main_invoice_def main_attachment_def
  download_attachment_def get_invoice_attachments_def get_invoices_between_dates_def
  send_request_def query_string_def non_filter_query_string_def filter_query_string_def
  pop_filters_def MyobClient_init_def http_request_def logging_info_def logging_error_def
  strptime_eval strftime_Ymd_def zero_pad_def str_nat.simps digit_char_def strip_def
  str_int_def file_name_def output_dir_def summary_def Let_def
  scripted_env_def routing_env_def plain_response_def json_response_def ex_client_def
  ex_world_def ex_invoice_def undated_invoice_def att_a_def att_b_def att_none_def
  has_uri_def present_uris_def map_filter_simps invoice_number_of_def invoice_date_of_def
  original_filename_of_def download_request_def list_attachments_request_def
  list_invoices_request_def


lemma rstrip_keeps_hd:
  "t \<noteq> [] \<Longrightarrow> \<not> P (hd t) \<Longrightarrow>
     rev (dropWhile P (rev t)) \<noteq> [] \<and> hd (rev (dropWhile P (rev t))) = hd t"
proof (induction t rule: rev_induct)
  case Nil
  then show ?case by simp
next
  case (snoc x xs)
  show ?case
  proof (cases "P x")
    case True
    with snoc show ?thesis by (cases xs) auto
  next
    case False
    then show ?thesis by (cases xs) auto
  qed
qed

lemma strip_hd: "strip c s \<noteq> [] \<Longrightarrow> hd (strip c s) \<noteq> c"
proof -
  assume ne: "strip c s \<noteq> []"
  let ?t = "dropWhile (\<lambda>x. x = c) s"
  have "?t = [] \<Longrightarrow> strip c s = []"
    unfolding strip_def by (simp only: rev.simps dropWhile.simps)
  with ne have t: "?t \<noteq> []" by blast
  then have "hd ?t \<noteq> c" using hd_dropWhile [of "\<lambda>x. x = c" s] by simp
  with t show ?thesis using rstrip_keeps_hd [of ?t "\<lambda>x. x = c"] by (simp add: strip_def)
qed

lemma strip_last: "strip c s \<noteq> [] \<Longrightarrow> last (strip c s) \<noteq> c"
proof -
  assume ne: "strip c s \<noteq> []"
  let ?u = "dropWhile (\<lambda>x. x = c) (rev (dropWhile (\<lambda>x. x = c) s))"
  from ne have u: "?u \<noteq> []" by (simp add: strip_def)
  then have "hd ?u \<noteq> c" using hd_dropWhile [of "\<lambda>x. x = c"] by blast
  with u show ?thesis by (simp add: strip_def last_rev)
qed

lemma strip_not_stray: "\<not> stray_amp (strip CHR ''&'' s)"
  using strip_hd [of "CHR ''&''" s] strip_last [of "CHR ''&''" s] by (auto simp: stray_amp_def)

lemma strip_lead: "strip c (c # s) = strip c s"
  by (simp add: strip_def)

lemma strip_trail: "strip c (s @ [c]) = strip c s"
proof (induction s)
  case Nil
  then show ?case by (simp add: strip_def)
next
  case (Cons a s)
  show ?case
  proof (cases "a = c")
    case True
    with Cons show ?thesis by (simp add: strip_def)
  next
    case False
    then show ?thesis by (simp add: strip_def)
  qed
qed




lemma str_nat_nonempty: "str_nat n \<noteq> []"
  by (subst str_nat.simps) simp











section \<open>The request primitive\<close>

lemma query_string_one_half:
  assumes "(filter_query_string ps = []) \<noteq> (non_filter_query_string ps = [])"
  shows "query_string ps = strip CHR ''&'' (filter_query_string ps @ non_filter_query_string ps)"
proof (cases "filter_query_string ps = []")
  case True
  then show ?thesis by (simp add: query_string_def strip_lead)
next
  case False
  with assms have "non_filter_query_string ps = []" by blast
  then show ?thesis using strip_trail [of "CHR ''&''" "filter_query_string ps"]
    by (simp add: query_string_def)
qed

lemma send_request_calls:
  "calls (snd (snd (send_request env self meth url ps body w))) =
     calls w @ [\<lparr>req_method = meth,
                 req_url = (if query_string ps \<noteq> [] then url @ ''?'' @ query_string ps else url),
                 req_headers = session_headers self,
                 req_data = (if body \<noteq> [] then json_dumps body else [])\<rparr>]"
  by (simp add: send_request_def http_request_def logging_info_def logging_error_def Let_def
           split: reply.splits)

text \<open>
  Claim C2 says that when exactly one of the two halves of the query string is empty,
  the query string appended to the URL has a leading or trailing stray \<open>&\<close>. Line 36
  strips every leading and trailing \<open>&\<close> after the join, so it has none: with the
  single plain parameter \<open>a=b\<close> and no filters the URL requested ends in \<open>?a=b\<close>.
\<close>

theorem stray_amp_counterexample:
  "filter_query_string \<lparr>filters = None, plain = [(''a'', ''b'')]\<rparr> = [] \<and>
   non_filter_query_string \<lparr>filters = None, plain = [(''a'', ''b'')]\<rparr> = ''a=b'' \<and>
   \<not> stray_amp (query_string \<lparr>filters = None, plain = [(''a'', ''b'')]\<rparr>) \<and>
   map req_url (calls (snd (snd (send_request (scripted_env []) ex_client ''GET''
       ''https://api/c1/x'' \<lparr>filters = None, plain = [(''a'', ''b'')]\<rparr> [] ex_world)))) =
     [''https://api/c1/x?a=b'']"
  by (simp add: filter_query_string_def non_filter_query_string_def query_string_def
        pop_filters_def strip_def stray_amp_def send_request_def http_request_def
        logging_info_def scripted_env_def ex_client_def ex_world_def Let_def)

text \<open>
  Claim C2 as amended: when exactly one of the two halves is empty, the query string is
  the other half with its leading and trailing \<open>&\<close> stripped, it neither starts nor
  ends with \<open>&\<close>, and the URL requested is the given URL followed by \<open>?\<close> and that
  query string (the given URL alone when nothing is left).
\<close>

theorem query_string_stripped:
  assumes "(filter_query_string ps = []) \<noteq> (non_filter_query_string ps = [])"
  shows "query_string ps =
           strip CHR ''&'' (filter_query_string ps @ non_filter_query_string ps) \<and>
         \<not> stray_amp (query_string ps) \<and>
         req_url (last (calls (snd (snd (send_request env self meth url ps body w))))) =
           (if query_string ps = [] then url else url @ ''?'' @ query_string ps)"
  using query_string_one_half [OF assms] strip_not_stray [of "filter_query_string ps @ non_filter_query_string ps"]
  by (simp add: send_request_calls)

theorem query_string_stripped_witness:
  "((filter_query_string \<lparr>filters = Some [(''k'', ''v'')], plain = []\<rparr> = []) \<noteq>
    (non_filter_query_string \<lparr>filters = Some [(''k'', ''v'')], plain = []\<rparr> = [])) \<and>
   query_string \<lparr>filters = Some [(''k'', ''v'')], plain = []\<rparr> = ''filters[k]=v'' \<and>
   req_url (last (calls (snd (snd (send_request (scripted_env []) ex_client ''GET''
       ''https://api/c1/x'' \<lparr>filters = Some [(''k'', ''v'')], plain = []\<rparr> [] ex_world))))) =
     ''https://api/c1/x?filters[k]=v''"
  using query_string_stripped [of "\<lparr>filters = Some [(''k'', ''v'')], plain = []\<rparr>"
      "scripted_env []" ex_client "''GET''" "''https://api/c1/x''" "[]" ex_world]
  by (simp add: filter_query_string_def non_filter_query_string_def pop_filters_def strip_def)

text \<open>
  Claim C10: a call of the request primitive with a dictionary that has the key
  \<^verbatim>\<open>'filters'\<close> leaves the caller's dictionary without that key and with every
  other entry as it was; this holds whether the transport answers or raises.
\<close>

theorem send_request_pops_filters:
  assumes "filters ps = Some f"
  shows "fst (snd (send_request env self meth url ps body w)) = ps\<lparr>filters := None\<rparr> \<and>
         filters (fst (snd (send_request env self meth url ps body w))) = None \<and>
         plain (fst (snd (send_request env self meth url ps body w))) = plain ps"
  by (simp add: send_request_def http_request_def pop_filters_def Let_def split: reply.splits)

theorem send_request_pops_filters_witness:
  "filters \<lparr>filters = Some [(''k'', ''v'')], plain = [(''a'', ''b'')]\<rparr> = Some [(''k'', ''v'')] \<and>
   fst (snd (send_request (scripted_env []) ex_client ''GET'' ''https://api/c1/x''
               \<lparr>filters = Some [(''k'', ''v'')], plain = [(''a'', ''b'')]\<rparr> [] ex_world)) =
     \<lparr>filters = None, plain = [(''a'', ''b'')]\<rparr>"
  using send_request_pops_filters [of "\<lparr>filters = Some [(''k'', ''v'')], plain = [(''a'', ''b'')]\<rparr>"
      "[(''k'', ''v'')]" "scripted_env []" ex_client "''GET''" "''https://api/c1/x''" "[]" ex_world]
  by simp

section \<open>The operations and the loops\<close>

text \<open>
  Claim C5: when the request of the list-invoices operation is answered with a status
  other than 200, the operation returns the empty list, having logged the error
  \<open>Failed to get invoices\<close>, and does not raise; when it is answered with status 200
  and a JSON object, it returns the list under \<^verbatim>\<open>Items\<close>, or the empty list when
  the object has no such key.
\<close>

theorem get_invoices_between_dates_result:
  assumes "server env (calls w) (list_invoices_request self sd ed) = Response r"
  shows "(status_code r \<noteq> 200 \<longrightarrow>
            fst (get_invoices_between_dates env self sd ed w) = Inr [] \<and>
            last (logs (snd (get_invoices_between_dates env self sd ed w))) =
              (ERROR, ''Failed to get invoices'')) \<and>
         (status_code r = 200 \<longrightarrow>
            (\<forall>data. resp_json r = Inr (JDict data) \<longrightarrow>
               fst (get_invoices_between_dates env self sd ed w) =
                 Inr (case Items data of None \<Rightarrow> [] | Some l \<Rightarrow> l)))"
  using assms
  by (simp add: get_invoices_between_dates_def send_request_def query_string_def
        filter_query_string_def non_filter_query_string_def strip_def
        http_request_def list_invoices_request_def logging_info_def logging_error_def
        pop_filters_def Let_def)

theorem get_invoices_between_dates_result_witness:
  "server (scripted_env [Response (plain_response 500 ''server error'')]) (calls ex_world)
     (list_invoices_request ex_client ''2024-03-01'' ''2024-03-31'') =
     Response (plain_response 500 ''server error'') \<and>
   status_code (plain_response 500 ''server error'') \<noteq> 200 \<and>
   fst (get_invoices_between_dates (scripted_env [Response (plain_response 500 ''server error'')])
          ex_client ''2024-03-01'' ''2024-03-31'' ex_world) = Inr [] \<and>
   last (logs (snd (get_invoices_between_dates
          (scripted_env [Response (plain_response 500 ''server error'')])
          ex_client ''2024-03-01'' ''2024-03-31'' ex_world))) =
     (ERROR, ''Failed to get invoices'') \<and>
   server (scripted_env [Response (json_response (JDict \<lparr>Items = Some [\<lparr>Number = Some ''INV-42'',
       Date = Some ''2024-03-05T00:00:00'', UID = Some ''u1''\<rparr>], Attachments = None\<rparr>))])
     (calls ex_world) (list_invoices_request ex_client ''2024-03-01'' ''2024-03-31'') =
     Response (json_response (JDict \<lparr>Items = Some [\<lparr>Number = Some ''INV-42'',
       Date = Some ''2024-03-05T00:00:00'', UID = Some ''u1''\<rparr>], Attachments = None\<rparr>)) \<and>
   fst (get_invoices_between_dates
          (scripted_env [Response (json_response (JDict \<lparr>Items = Some [\<lparr>Number = Some ''INV-42'',
             Date = Some ''2024-03-05T00:00:00'', UID = Some ''u1''\<rparr>], Attachments = None\<rparr>))])
          ex_client ''2024-03-01'' ''2024-03-31'' ex_world) =
     Inr [\<lparr>Number = Some ''INV-42'', Date = Some ''2024-03-05T00:00:00'', UID = Some ''u1''\<rparr>]"
proof -
  have a: "server (scripted_env [Response (plain_response 500 ''server error'')]) (calls ex_world)
     (list_invoices_request ex_client ''2024-03-01'' ''2024-03-31'') =
     Response (plain_response 500 ''server error'')"
    by (simp add: scripted_env_def ex_world_def)
  have b: "server (scripted_env [Response (json_response (JDict \<lparr>Items = Some [\<lparr>Number = Some ''INV-42'',
       Date = Some ''2024-03-05T00:00:00'', UID = Some ''u1''\<rparr>], Attachments = None\<rparr>))])
     (calls ex_world) (list_invoices_request ex_client ''2024-03-01'' ''2024-03-31'') =
     Response (json_response (JDict \<lparr>Items = Some [\<lparr>Number = Some ''INV-42'',
       Date = Some ''2024-03-05T00:00:00'', UID = Some ''u1''\<rparr>], Attachments = None\<rparr>))"
    by (simp add: scripted_env_def ex_world_def)
  show ?thesis
    using a b get_invoices_between_dates_result [OF a] get_invoices_between_dates_result [OF b]
    by (simp add: plain_response_def json_response_def)
qed

text \<open>
  Claim C6: when the fetch of the download operation is answered, the operation raises
  the exception whose text is \<open>Failed to download attachment: \<close> followed by the
  response body exactly when the status is not 200; with status 200, and the destination
  open for writing, it returns and the destination holds the response payload, whatever
  it held before.
\<close>

theorem download_attachment_result:
  assumes "server env (calls w) (download_request file_uri) = Response r"
  shows "((fst (download_attachment env file_uri save_path w) =
            Inl (Exception (''Failed to download attachment: '' @ resp_text r))) =
          (status_code r \<noteq> 200)) \<and>
         (status_code r = 200 \<longrightarrow> os_error env save_path = None \<longrightarrow>
            fst (download_attachment env file_uri save_path w) = Inr () \<and>
            files (snd (download_attachment env file_uri save_path w)) =
              (files w)(save_path \<mapsto> resp_content r))"
  using assms
  by (simp add: download_attachment_def http_request_def download_request_def logging_info_def
        Let_def split: option.splits)

theorem download_attachment_result_witness:
  "server (scripted_env [Response (plain_response 404 ''gone'')]) (calls ex_world)
     (download_request ''https://s3/a'') = Response (plain_response 404 ''gone'') \<and>
   fst (download_attachment (scripted_env [Response (plain_response 404 ''gone'')])
          ''https://s3/a'' ''invoice_pdfs/x.pdf'' ex_world) =
     Inl (Exception ''Failed to download attachment: gone'') \<and>
   server (scripted_env [Response (plain_response 200 ''PDF'')])
     (calls (ex_world\<lparr>files := [''invoice_pdfs/x.pdf'' \<mapsto> ''old'']\<rparr>))
     (download_request ''https://s3/a'') = Response (plain_response 200 ''PDF'') \<and>
   os_error (scripted_env [Response (plain_response 200 ''PDF'')]) ''invoice_pdfs/x.pdf'' = None \<and>
   fst (download_attachment (scripted_env [Response (plain_response 200 ''PDF'')])
          ''https://s3/a'' ''invoice_pdfs/x.pdf''
          (ex_world\<lparr>files := [''invoice_pdfs/x.pdf'' \<mapsto> ''old'']\<rparr>)) = Inr () \<and>
   files (snd (download_attachment (scripted_env [Response (plain_response 200 ''PDF'')])
          ''https://s3/a'' ''invoice_pdfs/x.pdf''
          (ex_world\<lparr>files := [''invoice_pdfs/x.pdf'' \<mapsto> ''old'']\<rparr>))) ''invoice_pdfs/x.pdf'' =
     Some ''PDF''"
proof -
  have a: "server (scripted_env [Response (plain_response 404 ''gone'')]) (calls ex_world)
     (download_request ''https://s3/a'') = Response (plain_response 404 ''gone'')"
    by (simp add: scripted_env_def ex_world_def)
  have b: "server (scripted_env [Response (plain_response 200 ''PDF'')])
     (calls (ex_world\<lparr>files := [''invoice_pdfs/x.pdf'' \<mapsto> ''old'']\<rparr>))
     (download_request ''https://s3/a'') = Response (plain_response 200 ''PDF'')"
    by (simp add: scripted_env_def ex_world_def)
  have c: "os_error (scripted_env [Response (plain_response 200 ''PDF'')]) ''invoice_pdfs/x.pdf'' = None"
    by (simp add: scripted_env_def)
  show ?thesis
    using a b c download_attachment_result [OF a, of "''invoice_pdfs/x.pdf''"]
      download_attachment_result [OF b, of "''invoice_pdfs/x.pdf''"]
    by (simp add: plain_response_def)
qed


lemma download_attachment_raises_files:
  "fst (download_attachment env u p w) = Inl e \<Longrightarrow> files (snd (download_attachment env u p w)) = files w"
  by (simp add: download_attachment_def http_request_def logging_info_def
        Let_def split: reply.splits option.splits if_splits)




lemma main_attachment_step:
  assumes "main_attachment env n d att st w = (Inr st', w')"
  shows "total_attachments st' = total_attachments st \<and>
         downloaded_attachments st \<le> downloaded_attachments st' \<and>
         downloaded_attachments st' \<le> downloaded_attachments st + 1"
  using assms
  by (auto simp: main_attachment_def Let_def split: option.splits if_splits sum.splits prod.splits)

lemma main_attachments_counters:
  "main_attachments env n d atts st w = (Inr st', w') \<Longrightarrow>
   total_attachments st' = total_attachments st \<and>
   downloaded_attachments st \<le> downloaded_attachments st' \<and>
   downloaded_attachments st' \<le> downloaded_attachments st + length atts"
proof (induction atts arbitrary: st w)
  case Nil
  then show ?case by simp
next
  case (Cons att atts)
  from Cons.prems obtain st1 w1 where
    step: "main_attachment env n d att st w = (Inr st1, w1)" and
    rest: "main_attachments env n d atts st1 w1 = (Inr st', w')"
    by (auto split: prod.splits sum.splits)
  from main_attachment_step [OF step] Cons.IH [OF rest] show ?case by simp
qed





lemma main_invoice_no_uid:
  "UID invoice = None \<Longrightarrow> main_invoice env cl invoice st w = (Inl (KeyError (repr ''UID'')), w)"
  by (simp add: main_invoice_def)

lemma main_invoice_attachments:
  assumes "UID invoice = Some uid"
      and "fst (get_invoice_attachments env cl uid
                  (logging_info (''Processing invoice '' @ invoice_number_of invoice @
                                 '' from '' @ invoice_date_of invoice) w)) = Inr atts"
  shows "main_invoice env cl invoice st w =
     (if atts \<noteq> [] then
        main_attachments env (invoice_number_of invoice) (invoice_date_of invoice) atts
          (st\<lparr>total_attachments := total_attachments st + length atts\<rparr>)
          (logging_info (''Found '' @ str_nat (length atts) @ '' attachments for invoice '' @
                         invoice_number_of invoice)
             (snd (get_invoice_attachments env cl uid
                     (logging_info (''Processing invoice '' @ invoice_number_of invoice @
                                    '' from '' @ invoice_date_of invoice) w))))
      else (Inr st, logging_info (''No attachments found for invoice '' @
                                   invoice_number_of invoice)
             (snd (get_invoice_attachments env cl uid
                     (logging_info (''Processing invoice '' @ invoice_number_of invoice @
                                    '' from '' @ invoice_date_of invoice) w)))))"
  using assms
  by (auto simp: main_invoice_def invoice_number_of_def invoice_date_of_def Let_def
           split: prod.splits sum.splits)

lemma main_invoice_raises_listing:
  assumes "UID invoice = Some uid"
      and "fst (get_invoice_attachments env cl uid
                  (logging_info (''Processing invoice '' @ invoice_number_of invoice @
                                 '' from '' @ invoice_date_of invoice) w)) = Inl e"
  shows "fst (main_invoice env cl invoice st w) = Inl e"
  using assms
  by (auto simp: main_invoice_def invoice_number_of_def invoice_date_of_def Let_def
           split: prod.splits sum.splits)

lemma main_invoice_counters:
  assumes "main_invoice env cl invoice st w = (Inr st', w')"
      and "downloaded_attachments st \<le> total_attachments st"
  shows "downloaded_attachments st' \<le> total_attachments st'"
proof -
  from assms(1) obtain uid where uid: "UID invoice = Some uid"
    by (cases "UID invoice") (auto simp: main_invoice_def)
  let ?g = "get_invoice_attachments env cl uid
              (logging_info (''Processing invoice '' @ invoice_number_of invoice @
                             '' from '' @ invoice_date_of invoice) w)"
  show ?thesis
  proof (cases "fst ?g")
    case (Inl e)
    from main_invoice_raises_listing [OF uid Inl, of st] assms(1) show ?thesis by simp
  next
    case (Inr atts)
    show ?thesis
    proof (cases "atts = []")
      case True
      with main_invoice_attachments [OF uid Inr, of st] assms show ?thesis by simp
    next
      case False
      with main_invoice_attachments [OF uid Inr, of st] assms(1)
      have "main_attachments env (invoice_number_of invoice) (invoice_date_of invoice) atts
              (st\<lparr>total_attachments := total_attachments st + length atts\<rparr>)
              (logging_info (''Found '' @ str_nat (length atts) @ '' attachments for invoice '' @
                             invoice_number_of invoice) (snd ?g)) = (Inr st', w')"
        by simp
      from main_attachments_counters [OF this] assms(2) show ?thesis by simp
    qed
  qed
qed

lemma main_invoices_counters:
  "main_invoices env cl invoices st w = (Inr st', w') \<Longrightarrow>
   downloaded_attachments st \<le> total_attachments st \<Longrightarrow>
   downloaded_attachments st' \<le> total_attachments st'"
proof (induction invoices arbitrary: st w)
  case Nil
  then show ?case by simp
next
  case (Cons invoice invoices)
  from Cons.prems(1) obtain st1 w1 where
    step: "main_invoice env cl invoice st w = (Inr st1, w1)" and
    rest: "main_invoices env cl invoices st1 w1 = (Inr st', w')"
    by (auto split: prod.splits sum.splits)
  from Cons.IH [OF rest main_invoice_counters [OF step Cons.prems(2)]] show ?case .
qed






lemma present_uris_Nil: "\<forall>att\<in>set atts. \<not> has_uri att \<Longrightarrow> present_uris atts = []"
  by (induction atts) (auto simp: present_uris_def has_uri_def map_filter_simps split: option.splits)










section \<open>The driver\<close>










text \<open>
  Claim C8: the counter of downloads never exceeds the counter of attachments. Inside the
  loop over the attachments of an invoice the stronger invariant holds that the downloads
  plus the attachments still to come do not exceed the total; each turn of the loop over
  the invoices, and the whole loop, keep downloads at most total; and the summary that
  ends the \<^verbatim>\<open>try\<close> body is logged with a download count at most its total.
\<close>

theorem downloaded_never_exceeds_total:
  "(downloaded_attachments st + Suc k \<le> total_attachments st \<longrightarrow>
      fst (main_attachment env n d att st w) = Inr st' \<longrightarrow>
      downloaded_attachments st' + k \<le> total_attachments st') \<and>
   (downloaded_attachments st \<le> total_attachments st \<longrightarrow>
      fst (main_invoice env cl invoice st w) = Inr st' \<longrightarrow>
      downloaded_attachments st' \<le> total_attachments st') \<and>
   (downloaded_attachments st \<le> total_attachments st \<longrightarrow>
      fst (main_invoices env cl invoices st w) = Inr st' \<longrightarrow>
      downloaded_attachments st' \<le> total_attachments st') \<and>
   (fst (main_try env cl sd ed w) = Inr st' \<longrightarrow>
      downloaded_attachments st' \<le> total_attachments st' \<and>
      last (logs (snd (main_try env cl sd ed w))) = (INFO, summary st'))"
proof -
  have a: "downloaded_attachments st' + k \<le> total_attachments st'"
    if "downloaded_attachments st + Suc k \<le> total_attachments st"
       "fst (main_attachment env n d att st w) = Inr st'"
  proof -
    from that(2) have "main_attachment env n d att st w =
        (Inr st', snd (main_attachment env n d att st w))"
      by (metis prod.collapse)
    from main_attachment_step [OF this] that(1) show ?thesis by simp
  qed
  have b: "downloaded_attachments st' \<le> total_attachments st'"
    if "downloaded_attachments st \<le> total_attachments st"
       "fst (main_invoice env cl invoice st w) = Inr st'"
  proof -
    from that(2) have "main_invoice env cl invoice st w =
        (Inr st', snd (main_invoice env cl invoice st w))"
      by (metis prod.collapse)
    from main_invoice_counters [OF this that(1)] show ?thesis .
  qed
  have c: "downloaded_attachments st' \<le> total_attachments st'"
    if "downloaded_attachments st \<le> total_attachments st"
       "fst (main_invoices env cl invoices st w) = Inr st'" for st st' w
  proof -
    from that(2) have "main_invoices env cl invoices st w =
        (Inr st', snd (main_invoices env cl invoices st w))"
      by (metis prod.collapse)
    from main_invoices_counters [OF this that(1)] show ?thesis .
  qed
  have d: "downloaded_attachments st' \<le> total_attachments st' \<and>
      last (logs (snd (main_try env cl sd ed w))) = (INFO, summary st')"
    if t: "fst (main_try env cl sd ed w) = Inr st'"
  proof -
    obtain r1 w1 where g: "get_invoices_between_dates env cl sd ed w = (r1, w1)" by fastforce
    with t obtain invs where r1: "r1 = Inr invs"
      by (cases r1) (auto simp: main_try_def)
    obtain r2 w2 where m: "main_invoices env cl invs
        \<lparr>total_attachments = 0, downloaded_attachments = 0\<rparr> w1 = (r2, w2)" by fastforce
    with t g r1 have r2: "r2 = Inr st'"
      by (cases r2) (auto simp: main_try_def)
    from m r2 have "main_invoices env cl invs
        \<lparr>total_attachments = 0, downloaded_attachments = 0\<rparr> w1 = (Inr st', w2)" by simp
    from main_invoices_counters [OF this]
    have "downloaded_attachments st' \<le> total_attachments st'"
      by simp
    then show ?thesis using g r1 m r2 by (simp add: main_try_def logging_info_def)
  qed
  from a b c [of st w st'] d show ?thesis by blast
qed

theorem downloaded_never_exceeds_total_witness:
  "fst (main_attachment (routing_env [ex_invoice]) ''INV-42'' ''2024-03-05T00:00:00'' att_b
          \<lparr>total_attachments = 1, downloaded_attachments = 0\<rparr> ex_world) =
     Inr \<lparr>total_attachments = 1, downloaded_attachments = 1\<rparr> \<and>
   fst (main_invoice (routing_env [ex_invoice]) ex_client ex_invoice
          \<lparr>total_attachments = 0, downloaded_attachments = 0\<rparr> ex_world) =
     Inr \<lparr>total_attachments = 2, downloaded_attachments = 1\<rparr> \<and>
   fst (main_invoices (routing_env [ex_invoice]) ex_client [ex_invoice]
          \<lparr>total_attachments = 0, downloaded_attachments = 0\<rparr> ex_world) =
     Inr \<lparr>total_attachments = 2, downloaded_attachments = 1\<rparr> \<and>
   fst (main_try (routing_env [ex_invoice]) ex_client ''2024-03-01'' ''2024-03-31'' ex_world) =
     Inr \<lparr>total_attachments = 2, downloaded_attachments = 1\<rparr> \<and>
   last (logs (snd (main_try (routing_env [ex_invoice]) ex_client ''2024-03-01'' ''2024-03-31'' ex_world))) =
     (INFO, ''Download complete. Found 2 attachments, successfully downloaded 1'')"
  using downloaded_never_exceeds_total
      [of "\<lparr>total_attachments = 1, downloaded_attachments = 0\<rparr>" 0 "routing_env [ex_invoice]" "''INV-42''"
          "''2024-03-05T00:00:00''" att_b ex_world
          "\<lparr>total_attachments = 1, downloaded_attachments = 1\<rparr>"]
    downloaded_never_exceeds_total
      [of "\<lparr>total_attachments = 0, downloaded_attachments = 0\<rparr>" 0 "routing_env [ex_invoice]" "''INV-42''"
          "''2024-03-05T00:00:00''" att_b ex_world
          "\<lparr>total_attachments = 2, downloaded_attachments = 1\<rparr>" ex_client ex_invoice
          "[ex_invoice]" "''2024-03-01''" "''2024-03-31''"]
  by (simp add: run_eval)



end
